theory Spec2Isabelle
  imports Main "HOL-Library.Word"
begin

section \<open>Values, faults and effects\<close>

text \<open>
  The program is two JavaScript classes: \<open>AmiVoice\<close> (amivoice.js), which owns the
  websocket to the speech provider, and \<open>VoiceStream\<close> (server.js), which owns the
  websocket from the telephony provider. Both are driven by callbacks. A method or
  callback becomes a function from the object's state to an outcome: the new state and
  the effects it performed, in order, or the exception it threw and the effects it
  performed before throwing.

  A JavaScript string is modelled as a \<open>string\<close>, one list element per code unit.
  Numbers are never inspected by the program; they are carried as integers.
\<close>

type_synonym byte = "8 word"

type_synonym conn = nat

datatype jsval =
    JUndefined
  | JNull
  | JBool bool
  | JNum int
  | JStr string
  | JArr "jsval list"
  | JObj "(string \<times> jsval) list"

text \<open>What is thrown: a TypeError (a member of \<open>undefined\<close> or \<open>null\<close>, a value
  \<open>Buffer.from\<close> refuses), the SyntaxError of \<open>JSON.parse\<close>, or the reason an
  external request was rejected with.\<close>

datatype error = TypeError | SyntaxError | RequestFailed

text \<open>A websocket message: \<open>message.type\<close> is \<open>"utf8"\<close> or \<open>"binary"\<close>.\<close>

datatype frame = Utf8 string | Binary "byte list"

text \<open>One verb of a TwiML \<open>VoiceResponse\<close>: a \<open>Say\<close> element with its voice, its language
  and its text, or a \<open>Pause\<close> element with its length in seconds.\<close>

datatype verb = Say string string string | Pause nat

text \<open>
  What a handler does to the outside, in program order.
  \<^item> \<open>Log\<close>: one \<open>log(...)\<close> call; the list holds the pieces of the line in order
    (concatenated strings, the holes of a template literal, further arguments).
  \<^item> \<open>ClientConnect\<close>: \<open>client.connect(url)\<close>, a connect attempt to the provider.
  \<^item> \<open>ConnSend\<close>: \<open>connection.send(data)\<close> on a provider connection.
  \<^item> \<open>Emit\<close>: \<open>this.emit(name, argument)\<close>.
  \<^item> \<open>CreateChatCompletion\<close>: \<open>openai.createChatCompletion({model, messages})\<close>,
    the messages as (role, content) pairs.
  \<^item> \<open>CallsUpdate\<close>: \<open>twilioClient.calls(callSid).update({twiml})\<close>.
  \<^item> \<open>Rejected\<close>: the promise of an \<open>async\<close> function was rejected; nothing handles it.
\<close>

datatype effect =
    Log "jsval list"
  | ClientConnect string
  | ConnSend conn frame
  | Emit string jsval
  | CreateChatCompletion string "(string \<times> jsval) list"
  | CallsUpdate jsval "verb list"
  | Rejected error

datatype 'a outcome = Done 'a "effect list" | Fault error "effect list"

fun effects_of :: "'a outcome \<Rightarrow> effect list" where
  "effects_of (Done a es) = es"
| "effects_of (Fault x es) = es"

text \<open>\<open>preceded es r\<close>: the effects \<open>es\<close> were performed, then \<open>r\<close> happened.\<close>

fun preceded :: "effect list \<Rightarrow> 'a outcome \<Rightarrow> 'a outcome" where
  "preceded es (Done a es') = Done a (es @ es')"
| "preceded es (Fault x es') = Fault x (es @ es')"

text \<open>
  Member access \<open>v.k\<close>. On \<open>undefined\<close> and \<open>null\<close> it throws a TypeError; on an object it
  is the property or \<open>undefined\<close>; on the other values the names the program reads
  (\<open>event\<close>, \<open>start\<close>, \<open>callSid\<close>, \<open>media\<close>, \<open>payload\<close>, \<open>text\<close>, \<open>body\<close>, \<open>data\<close>, \<open>choices\<close>,
  \<open>message\<close>, \<open>content\<close>) are not defined, so it is \<open>undefined\<close>.
\<close>

fun js_get :: "jsval \<Rightarrow> string \<Rightarrow> error + jsval" where
  "js_get JUndefined k = Inl TypeError"
| "js_get JNull k = Inl TypeError"
| "js_get (JObj kvs) k = (case map_of kvs k of None \<Rightarrow> Inr JUndefined | Some v \<Rightarrow> Inr v)"
| "js_get v k = Inr JUndefined"

text \<open>Element access \<open>v[0]\<close>.\<close>

fun index0 :: "jsval \<Rightarrow> error + jsval" where
  "index0 JUndefined = Inl TypeError"
| "index0 JNull = Inl TypeError"
| "index0 (JArr []) = Inr JUndefined"
| "index0 (JArr (x # xs)) = Inr x"
| "index0 (JStr []) = Inr JUndefined"
| "index0 (JStr (c # cs)) = Inr (JStr [c])"
| "index0 (JObj kvs) = (case map_of kvs ''0'' of None \<Rightarrow> Inr JUndefined | Some v \<Rightarrow> Inr v)"
| "index0 v = Inr JUndefined"

text \<open>
  The JavaScript runtime and the process environment, which are not code of the
  repository, are parameters of the model:
  \<^item> \<open>JSON_parse\<close> is \<open>JSON.parse\<close>; \<open>None\<close> is the SyntaxError it throws;
  \<^item> \<open>base64\<close> is \<open>Buffer.from(s, "base64")\<close> on a string \<open>s\<close>, which decodes every string;
  \<^item> \<open>Buffer_from_other\<close> is \<open>Buffer.from(v, "base64")\<close> on an array or an object, which
    converts an array-like value and throws a TypeError on another;
  \<^item> \<open>VoiceResponse_say_other\<close> is what \<open>twiml.say(attributes, v)\<close> adds to the document
    when \<open>v\<close> is not a string;
  \<^item> \<open>env_AMIVOICE_API_KEY\<close> is \<open>process.env.AMIVOICE_API_KEY\<close>, \<open>None\<close> when unset.
\<close>

record runtime =
  JSON_parse :: "string \<Rightarrow> jsval option"
  base64 :: "string \<Rightarrow> byte list"
  Buffer_from_other :: "jsval \<Rightarrow> error + byte list"
  VoiceResponse_say_other :: "jsval \<Rightarrow> verb list"
  env_AMIVOICE_API_KEY :: "string option"

text \<open>\<open>Buffer.from(v, "base64")\<close>: a string is decoded; \<open>undefined\<close>, \<open>null\<close>, a boolean and
  a number are refused with a TypeError; an array or an object is the runtime's.\<close>

fun Buffer_from :: "runtime \<Rightarrow> jsval \<Rightarrow> error + byte list" where
  "Buffer_from rt (JStr p) = Inr (base64 rt p)"
| "Buffer_from rt JUndefined = Inl TypeError"
| "Buffer_from rt JNull = Inl TypeError"
| "Buffer_from rt (JBool b) = Inl TypeError"
| "Buffer_from rt (JNum n) = Inl TypeError"
| "Buffer_from rt v = Buffer_from_other rt v"

section \<open>amivoice.js: the class AmiVoice\<close>

definition AMIVOICE_WEBSOCKET_URL :: string where
  "AMIVOICE_WEBSOCKET_URL = ''wss://acp-api.amivoice.com/v1/''"

text \<open>
  The fields of an \<open>AmiVoice\<close> object. The constructor does not assign \<open>isStarted\<close> and
  \<open>connection\<close>: they are \<open>undefined\<close> (\<open>None\<close>) until a callback assigns them.
  Three fields hold what the object has registered with the libraries:
  \<^item> \<open>listeners\<close>: the listeners added with \<open>on("transcription", ...)\<close> (EventEmitter);
  \<^item> \<open>pending\<close>: the websocket clients whose \<open>client.connect(url)\<close> has not yet called
    back; each calls back once, with \<open>connect\<close> or with \<open>connectFailed\<close>;
  \<^item> \<open>listening\<close>: the connections on which the \<open>message\<close>, \<open>error\<close> and \<open>close\<close>
    handlers were registered.
\<close>

record amivoice =
  apiKey :: "string option"
  isReady :: bool
  isStarted :: "bool option"
  connection :: "conn option"
  listeners :: nat
  pending :: nat
  listening :: "conn list"

text \<open>\<open>this.isStarted\<close> as a condition: \<open>undefined\<close> and \<open>false\<close> are falsy.\<close>

fun truthy :: "bool option \<Rightarrow> bool" where
  "truthy None = False"
| "truthy (Some b) = b"

text \<open>A template hole \<open>${this.apiKey}\<close>: an unset key renders as \<open>undefined\<close>.\<close>

fun render :: "string option \<Rightarrow> string" where
  "render None = ''undefined''"
| "render (Some k) = k"

definition start_command :: "string option \<Rightarrow> string" where
  "start_command k = ''s mulaw -a-general authorization='' @ render k"

text \<open>
  \<open>connect()\<close>: when not ready, a new client is created, its two handlers are
  registered, and a connect attempt is issued.
\<close>

definition AmiVoice_connect :: "amivoice \<Rightarrow> amivoice outcome" where
  "AmiVoice_connect s =
     (if \<not> isReady s
      then Done (s\<lparr>pending := Suc (pending s)\<rparr>) [ClientConnect AMIVOICE_WEBSOCKET_URL]
      else Done s [])"

text \<open>\<open>start()\<close>. \<open>this.connection.send\<close> on an undefined connection throws.\<close>

definition AmiVoice_start :: "amivoice \<Rightarrow> amivoice outcome" where
  "AmiVoice_start s =
     (if \<not> isReady s then AmiVoice_connect s
      else if isReady s \<and> \<not> truthy (isStarted s)
      then (case connection s of
              None \<Rightarrow> Fault TypeError []
            | Some c \<Rightarrow> Done s [ConnSend c (Utf8 (start_command (apiKey s)))])
      else Done s [])"

text \<open>
  The loop of \<open>send\<close>: \<open>for (let i = 0; i < buff.length; i++) outData[1 + i] = buff[i]\<close>.
  A write past the end of a typed array is ignored, as \<open>list_update\<close> does.
\<close>

function copy_loop :: "byte list \<Rightarrow> nat \<Rightarrow> byte list \<Rightarrow> byte list" where
  "copy_loop buff i outData =
     (if i < length buff then copy_loop buff (Suc i) (outData[1 + i := buff ! i])
      else outData)"
  by pat_completeness auto
termination
  by (relation "measure (\<lambda>(buff, i, outData). length buff - i)") auto

text \<open>The frame \<open>send\<close> builds: a zeroed \<open>Uint8Array(buff.length + 1)\<close>, then the marker,
  then the loop.\<close>

definition audio_frame :: "byte list \<Rightarrow> byte list" where
  "audio_frame buff = copy_loop buff 0 ((replicate (length buff + 1) 0)[0 := 0x70])"

definition AmiVoice_send :: "runtime \<Rightarrow> jsval \<Rightarrow> amivoice \<Rightarrow> amivoice outcome" where
  "AmiVoice_send rt payload s =
     (if truthy (isStarted s)
      then (case Buffer_from rt payload of
              Inl x \<Rightarrow> Fault x []
            | Inr buff \<Rightarrow>
                (case connection s of
                   None \<Rightarrow> Fault TypeError []
                 | Some c \<Rightarrow> Done s [ConnSend c (Binary (audio_frame buff))]))
      else Done s [])"

definition AmiVoice_close :: "amivoice \<Rightarrow> amivoice outcome" where
  "AmiVoice_close s =
     (if truthy (isStarted s) \<and> isReady s
      then (case connection s of
              None \<Rightarrow> Fault TypeError [Log [JStr ''AmiVoice: send close command'']]
            | Some c \<Rightarrow>
                Done (s\<lparr>isStarted := Some False\<rparr>)
                  [Log [JStr ''AmiVoice: send close command''], ConnSend c (Utf8 ''e'')])
      else Done s [])"

subsection \<open>The callbacks registered in \<open>connect()\<close>\<close>

text \<open>\<open>client.on("connectFailed", ...)\<close>; \<open>err\<close> is \<open>error.toString()\<close>.\<close>

definition client_connectFailed :: "string \<Rightarrow> amivoice \<Rightarrow> amivoice outcome" where
  "client_connectFailed err s =
     (if pending s = 0 then Done s []
      else Done (s\<lparr>isReady := False, pending := pending s - 1\<rparr>)
             [Log [JStr ''AmiVoice: '', JStr err]])"

text \<open>\<open>client.on("connect", ...)\<close>: stores the connection, registers the three
  handlers on it, sets \<open>isReady\<close> and calls \<open>start()\<close>.\<close>

definition client_connect :: "conn \<Rightarrow> amivoice \<Rightarrow> amivoice outcome" where
  "client_connect c s =
     (if pending s = 0 then Done s []
      else preceded [Log [JStr ''AmiVoice: websocket client connected'']]
             (AmiVoice_start
                (s\<lparr>connection := Some c, listening := c # listening s,
                   isReady := True, pending := pending s - 1\<rparr>)))"

text \<open>\<open>connection.on("message", ...)\<close>. \<open>charAt(0)\<close> is the first code unit or the empty
  string; \<open>substring(2)\<close> drops two code units.\<close>

definition connection_message :: "runtime \<Rightarrow> conn \<Rightarrow> frame \<Rightarrow> amivoice \<Rightarrow> amivoice outcome" where
  "connection_message rt c m s =
     (if c \<in> set (listening s)
      then (case m of
              Binary b \<Rightarrow> Done s []
            | Utf8 utf8Data \<Rightarrow>
                (let code = take 1 utf8Data in
                 if code = ''s''
                 then Done (s\<lparr>isStarted := Some True\<rparr>)
                        [Log [JStr ''AmiVoice: [s] Connection established'']]
                 else if code = ''A''
                 then (case JSON_parse rt (drop 2 utf8Data) of
                         None \<Rightarrow> Fault SyntaxError []
                       | Some data \<Rightarrow>
                           (case js_get data ''text'' of
                              Inl x \<Rightarrow> Fault x []
                            | Inr t \<Rightarrow>
                                Done s [Log [JStr ''AmiVoice: [A] '', t],
                                        Emit ''transcription'' (JObj [(''body'', data)])]))
                 else if code = ''e''
                 then Done (s\<lparr>isStarted := Some False, isReady := False\<rparr>)
                        [Log [JStr ''AmiVoice: [e] Connection closed'']]
                 else Done s []))
      else Done s [])"

text \<open>\<open>connection.on("error", ...)\<close>; \<open>err\<close> is \<open>error.toString()\<close>.\<close>

definition connection_error :: "conn \<Rightarrow> string \<Rightarrow> amivoice \<Rightarrow> amivoice outcome" where
  "connection_error c err s =
     (if c \<in> set (listening s) then Done s [Log [JStr ''Connection Error: '', JStr err]]
      else Done s [])"

text \<open>\<open>connection.on("close", ...)\<close>.\<close>

definition connection_close :: "conn \<Rightarrow> amivoice \<Rightarrow> amivoice outcome" where
  "connection_close c s =
     (if c \<in> set (listening s)
      then Done (s\<lparr>isStarted := Some False\<rparr>) [Log [JStr ''AmiVoice: connection closed'']]
      else Done s [])"

text \<open>The constructor: \<open>this.apiKey = apiKey; this.isReady = false; this.connect()\<close>.\<close>

definition AmiVoice_new :: "string option \<Rightarrow> amivoice outcome" where
  "AmiVoice_new k =
     AmiVoice_connect
       \<lparr>apiKey = k, isReady = False, isStarted = None, connection = None,
        listeners = 0, pending = 0, listening = []\<rparr>"

subsection \<open>The life of one Speech Session\<close>

text \<open>The callbacks the libraries make on an \<open>AmiVoice\<close> object.\<close>

datatype callback =
    On_connectFailed string
  | On_connect conn
  | On_message conn frame
  | On_error conn string
  | On_close conn

fun invoke :: "runtime \<Rightarrow> callback \<Rightarrow> amivoice \<Rightarrow> amivoice outcome" where
  "invoke rt (On_connectFailed err) s = client_connectFailed err s"
| "invoke rt (On_connect c) s = client_connect c s"
| "invoke rt (On_message c m) s = connection_message rt c m s"
| "invoke rt (On_error c err) s = connection_error c err s"
| "invoke rt (On_close c) s = connection_close c s"

text \<open>Everything that can happen to an \<open>AmiVoice\<close> object after its construction: a
  call of \<open>send\<close> or \<open>close\<close> by its owner, or one of its callbacks.\<close>

datatype call = Call_send jsval | Call_close | Callback callback

fun dispatch :: "runtime \<Rightarrow> call \<Rightarrow> amivoice \<Rightarrow> amivoice outcome" where
  "dispatch rt (Call_send payload) s = AmiVoice_send rt payload s"
| "dispatch rt Call_close s = AmiVoice_close s"
| "dispatch rt (Callback cb) s = invoke rt cb s"

text \<open>A run stops at the first exception: nothing in the program catches it.\<close>

fun run :: "runtime \<Rightarrow> call list \<Rightarrow> amivoice \<Rightarrow> amivoice outcome" where
  "run rt [] s = Done s []"
| "run rt (e # es) s =
     (case dispatch rt e s of
        Fault x effs \<Rightarrow> Fault x effs
      | Done s' effs \<Rightarrow> preceded effs (run rt es s'))"

definition session :: "runtime \<Rightarrow> string option \<Rightarrow> call list \<Rightarrow> amivoice outcome" where
  "session rt k calls =
     (case AmiVoice_new k of
        Fault x effs \<Rightarrow> Fault x effs
      | Done s effs \<Rightarrow> preceded effs (run rt calls s))"

section \<open>server.js: the class VoiceStream\<close>

definition TWILIO_VOICE :: string where
  "TWILIO_VOICE = ''Polly.Takumi-Neural''"

definition TWILIO_LANGUAGE :: string where
  "TWILIO_LANGUAGE = ''ja-JP''"

type_synonym addr = nat

text \<open>The fields of a \<open>VoiceStream\<close>; \<open>amiVoiceConnection\<close> is \<open>null\<close> (\<open>None\<close>) or a
  reference to an \<open>AmiVoice\<close> object.\<close>

record voicestream =
  messageCount :: nat
  amiVoiceConnection :: "addr option"
  callSid :: jsval

text \<open>
  One call: the \<open>VoiceStream\<close>, the \<open>AmiVoice\<close> objects constructed so far (an object
  stays alive while a library holds its callbacks, so none is ever removed; its address
  is its position), and the asynchronous work in flight:
  \<^item> \<open>awaiting\<close>: the calls of \<open>receivedTranscription\<close> suspended at \<open>await\<close>, each with
    its \<open>callSid\<close> argument;
  \<^item> \<open>updating\<close>: the call updates not settled yet, each with its \<open>chatGptMessage\<close>.
\<close>

record world =
  stream :: voicestream
  heap :: "amivoice list"
  awaiting :: "jsval list"
  updating :: "jsval list"

text \<open>The constructor of \<open>VoiceStream\<close>, and the world of a call just accepted.\<close>

definition VoiceStream_new :: voicestream where
  "VoiceStream_new = \<lparr>messageCount = 0, amiVoiceConnection = None, callSid = JStr []\<rparr>"

definition accepted :: world where
  "accepted = \<lparr>stream = VoiceStream_new, heap = [], awaiting = [], updating = []\<rparr>"

text \<open>A method call on the object at address \<open>a\<close>. Addresses come from allocation
  only, so \<open>a\<close> is below the length of the heap (lemma \<open>play_reference_valid\<close>); the
  other branch of the guard is there to keep the function total.\<close>

definition at_object :: "addr \<Rightarrow> (amivoice \<Rightarrow> amivoice outcome) \<Rightarrow> world \<Rightarrow> world outcome" where
  "at_object a method w =
     (if a < length (heap w)
      then (case method (heap w ! a) of
              Fault x es \<Rightarrow> Fault x es
            | Done s es \<Rightarrow> Done (w\<lparr>heap := (heap w)[a := s]\<rparr>) es)
      else Done w [])"

text \<open>\<open>close()\<close>: logs, then calls \<open>this.amiVoiceConnection.close()\<close>.\<close>

definition VoiceStream_close :: "world \<Rightarrow> world outcome" where
  "VoiceStream_close w =
     preceded
       [Log [JStr ''Twilio WS: Closed. Received a total of ['',
             JNum (int (messageCount (stream w))), JStr ''] messages'']]
       (case amiVoiceConnection (stream w) of
          None \<Rightarrow> Fault TypeError []
        | Some a \<Rightarrow> at_object a AmiVoice_close w)"

text \<open>The \<open>start\<close> case of \<open>processMessage\<close>: stores \<open>data.start.callSid\<close>, constructs an
  \<open>AmiVoice\<close>, stores the reference and adds the transcription listener to the new
  object.\<close>

definition case_start :: "runtime \<Rightarrow> jsval \<Rightarrow> world \<Rightarrow> world outcome" where
  "case_start rt data w =
     preceded [Log [JStr ''Twilio WS: Start event received: '', data]]
       (case js_get data ''start'' of
          Inl x \<Rightarrow> Fault x []
        | Inr st \<Rightarrow>
            (case js_get st ''callSid'' of
               Inl x \<Rightarrow> Fault x []
             | Inr sid \<Rightarrow>
                 (case AmiVoice_new (env_AMIVOICE_API_KEY rt) of
                    Fault x es \<Rightarrow> Fault x es
                  | Done s es \<Rightarrow>
                      Done (w\<lparr>stream := (stream w)\<lparr>callSid := sid,
                                         amiVoiceConnection := Some (length (heap w))\<rparr>,
                              heap := heap w @ [s\<lparr>listeners := Suc (listeners s)\<rparr>]\<rparr>)
                        es)))"

text \<open>The \<open>media\<close> case: \<open>this.amiVoiceConnection.send(data.media.payload)\<close>.\<close>

definition case_media :: "runtime \<Rightarrow> jsval \<Rightarrow> world \<Rightarrow> world outcome" where
  "case_media rt data w =
     (case amiVoiceConnection (stream w) of
        None \<Rightarrow> Fault TypeError []
      | Some a \<Rightarrow>
          (case js_get data ''media'' of
             Inl x \<Rightarrow> Fault x []
           | Inr media \<Rightarrow>
               (case js_get media ''payload'' of
                  Inl x \<Rightarrow> Fault x []
                | Inr payload \<Rightarrow> at_object a (AmiVoice_send rt payload) w)))"

text \<open>The \<open>switch (data.event)\<close>; a case matches by strict equality with its string.\<close>

definition switch_event :: "runtime \<Rightarrow> jsval \<Rightarrow> jsval \<Rightarrow> world \<Rightarrow> world outcome" where
  "switch_event rt event data w =
     (if event = JStr ''connected''
      then Done w [Log [JStr ''Twilio WS: Connected event received: '', data]]
      else if event = JStr ''start'' then case_start rt data w
      else if event = JStr ''media'' then case_media rt data w
      else if event = JStr ''closed''
      then preceded [Log [JStr ''Twilio WS: Close event received: '', data]]
             (VoiceStream_close w)
      else Done w [])"

definition processMessage :: "runtime \<Rightarrow> frame \<Rightarrow> world \<Rightarrow> world outcome" where
  "processMessage rt message w =
     (case message of
        Binary b \<Rightarrow> Done w [Log [JStr ''Twilio WS: binary message received (not supported)'']]
      | Utf8 utf8Data \<Rightarrow>
          (case JSON_parse rt utf8Data of
             None \<Rightarrow> Fault SyntaxError []
           | Some data \<Rightarrow>
               (case js_get data ''event'' of
                  Inl x \<Rightarrow> Fault x []
                | Inr event \<Rightarrow>
                    (case switch_event rt event data w of
                       Fault x es \<Rightarrow> Fault x es
                     | Done w' es \<Rightarrow>
                         Done (w'\<lparr>stream := (stream w')
                                  \<lparr>messageCount := Suc (messageCount (stream w'))\<rparr>\<rparr>)
                           es))))"

text \<open>The handler of the inbound connection's \<open>close\<close>, registered by the constructor.\<close>

definition connection_closed_by_twilio :: "world \<Rightarrow> world outcome" where
  "connection_closed_by_twilio w =
     preceded [Log [JStr ''Twilio WS: Connection closed by Twillio'']] (VoiceStream_close w)"

subsection \<open>The reply pipeline\<close>

text \<open>
  \<open>receivedTranscription\<close> is an \<open>async\<close> function: what it throws rejects its promise,
  which nothing handles, and never reaches its caller. It runs up to the \<open>await\<close> when
  called (the log and the completion request) and is suspended there.
\<close>

definition receivedTranscription :: "jsval \<Rightarrow> jsval \<Rightarrow> world \<Rightarrow> world \<times> effect list" where
  "receivedTranscription data sid w =
     (case js_get data ''body'' of
        Inl x \<Rightarrow> (w, [Rejected x])
      | Inr body \<Rightarrow>
          (case js_get body ''text'' of
             Inl x \<Rightarrow> (w, [Rejected x])
           | Inr text \<Rightarrow>
               (w\<lparr>awaiting := awaiting w @ [sid]\<rparr>,
                [Log [JStr ''Twilio WS: Received message from AmiVoice: '', text],
                 CreateChatCompletion ''gpt-3.5-turbo'' [(''user'', text)]])))"

text \<open>\<open>completion.data.choices[0].message.content\<close>.\<close>

definition chatGptMessage :: "jsval \<Rightarrow> error + jsval" where
  "chatGptMessage completion =
     (case js_get completion ''data'' of
        Inl x \<Rightarrow> Inl x
      | Inr d \<Rightarrow>
          (case js_get d ''choices'' of
             Inl x \<Rightarrow> Inl x
           | Inr cs \<Rightarrow>
               (case index0 cs of
                  Inl x \<Rightarrow> Inl x
                | Inr c \<Rightarrow>
                    (case js_get c ''message'' of
                       Inl x \<Rightarrow> Inl x
                     | Inr m \<Rightarrow> js_get m ''content''))))"

text \<open>\<open>twiml.say({voice, language}, chatGptMessage)\<close>: the verbs it adds to the document.\<close>

fun say :: "runtime \<Rightarrow> jsval \<Rightarrow> verb list" where
  "say rt (JStr message) = [Say TWILIO_VOICE TWILIO_LANGUAGE message]"
| "say rt v = VoiceResponse_say_other rt v"

text \<open>The rest of \<open>receivedTranscription\<close>, run when the completion request settles:
  with the response, or rejected (\<open>None\<close>). The document is what \<open>say\<close> added, then the
  pause of 40 seconds.\<close>

definition receivedTranscription_resumed ::
    "runtime \<Rightarrow> jsval \<Rightarrow> jsval option \<Rightarrow> world \<Rightarrow> world \<times> effect list" where
  "receivedTranscription_resumed rt sid settled w =
     (case settled of
        None \<Rightarrow> (w, [Rejected RequestFailed])
      | Some completion \<Rightarrow>
          (case chatGptMessage completion of
             Inl x \<Rightarrow> (w, [Rejected x])
           | Inr msg \<Rightarrow>
               (w\<lparr>updating := updating w @ [msg]\<rparr>,
                [CallsUpdate sid (say rt msg @ [Pause 40])])))"

text \<open>The \<open>.then(...)\<close> of the call update: logs when the update succeeded.\<close>

definition update_then :: "jsval \<Rightarrow> bool \<Rightarrow> effect list" where
  "update_then msg ok =
     (if ok then [Log [JStr ''Twilio WS: ChatGPT response sent back with TwiML: '', msg]]
      else [Rejected RequestFailed])"

subsection \<open>Emission and the events of a call\<close>

text \<open>The listener \<open>processMessage\<close> adds to each \<open>AmiVoice\<close> calls
  \<open>this.receivedTranscription(transcriptionData, this.callSid)\<close>: it reads the stream's
  \<open>callSid\<close> when it runs. \<open>emit\<close> runs the listeners of the emitting object in turn.\<close>

fun notify :: "nat \<Rightarrow> jsval \<Rightarrow> world \<Rightarrow> world \<times> effect list" where
  "notify 0 v w = (w, [])"
| "notify (Suc n) v w =
     (case receivedTranscription v (callSid (stream w)) w of
        (w1, es1) \<Rightarrow> (case notify n v w1 of (w2, es2) \<Rightarrow> (w2, es1 @ es2)))"

text \<open>The effects of a callback of the object at \<open>a\<close>, with the listeners run at each
  emission of \<open>transcription\<close>.\<close>

fun deliver :: "addr \<Rightarrow> effect list \<Rightarrow> world \<Rightarrow> world \<times> effect list" where
  "deliver a [] w = (w, [])"
| "deliver a (Emit name v # es) w =
     (case (if name = ''transcription'' then notify (listeners (heap w ! a)) v w else (w, [])) of
        (w1, es1) \<Rightarrow> (case deliver a es w1 of (w2, es2) \<Rightarrow> (w2, Emit name v # es1 @ es2)))"
| "deliver a (e # es) w = (case deliver a es w of (w2, es2) \<Rightarrow> (w2, e # es2))"

definition provider :: "runtime \<Rightarrow> addr \<Rightarrow> callback \<Rightarrow> world \<Rightarrow> world outcome" where
  "provider rt a cb w =
     (if a < length (heap w)
      then (case invoke rt cb (heap w ! a) of
              Fault x es \<Rightarrow> Fault x (snd (deliver a es w))
            | Done s es \<Rightarrow>
                (case deliver a es (w\<lparr>heap := (heap w)[a := s]\<rparr>) of
                   (w1, es1) \<Rightarrow> Done w1 es1))
      else Done w [])"

text \<open>What can happen during a call: a message or the close of the inbound connection,
  a callback on one of the \<open>AmiVoice\<close> objects, the settling of the \<open>i\<close>-th suspended
  completion request, the settling of the \<open>i\<close>-th call update.\<close>

datatype event =
    Twilio_message frame
  | Twilio_close
  | Provider addr callback
  | Completion_settled nat "jsval option"
  | Update_settled nat bool

fun step :: "runtime \<Rightarrow> event \<Rightarrow> world \<Rightarrow> world outcome" where
  "step rt (Twilio_message m) w = processMessage rt m w"
| "step rt Twilio_close w = connection_closed_by_twilio w"
| "step rt (Provider a cb) w = provider rt a cb w"
| "step rt (Completion_settled i settled) w =
     (if i < length (awaiting w)
      then (case receivedTranscription_resumed rt (awaiting w ! i) settled
                   (w\<lparr>awaiting := take i (awaiting w) @ drop (Suc i) (awaiting w)\<rparr>) of
              (w1, es) \<Rightarrow> Done w1 es)
      else Done w [])"
| "step rt (Update_settled i ok) w =
     (if i < length (updating w)
      then Done (w\<lparr>updating := take i (updating w) @ drop (Suc i) (updating w)\<rparr>)
             (update_then (updating w ! i) ok)
      else Done w [])"

fun play :: "runtime \<Rightarrow> event list \<Rightarrow> world \<Rightarrow> world outcome" where
  "play rt [] w = Done w []"
| "play rt (e # es) w =
     (case step rt e w of
        Fault x effs \<Rightarrow> Fault x effs
      | Done w' effs \<Rightarrow> preceded effs (play rt es w'))"

section \<open>A runtime and frames for the examples\<close>

text \<open>The frames the examples use, as the providers write them.\<close>

definition frame_connected :: string where
  \<open>frame_connected = ''{"event":"connected","protocol":"Call","version":"0.2.0"}''\<close>

definition frame_start :: string where
  \<open>frame_start = ''{"event":"start","start":{"callSid":"CA123"}}''\<close>

definition frame_start_again :: string where
  \<open>frame_start_again = ''{"event":"start","start":{"callSid":"CA456"}}''\<close>

definition frame_media :: string where
  \<open>frame_media = ''{"event":"media","media":{"payload":"fv8="}}''\<close>

definition frame_media_without_payload :: string where
  \<open>frame_media_without_payload = ''{"event":"media","media":{}}''\<close>

definition frame_closed :: string where
  \<open>frame_closed = ''{"event":"closed"}''\<close>

definition frame_result :: string where
  \<open>frame_result = ''A {"text":"hello"}''\<close>

text \<open>A runtime for the examples: \<open>JSON.parse\<close> and the base64 decoding tabulated on
  the texts above (\<open>fv8=\<close> is the two bytes 7e ff), \<open>Buffer.from\<close> refusing arrays and
  objects, \<open>say\<close> adding nothing for a text that is not a string, and the API key \<open>KEY\<close>.
  The examples pass neither an array nor an object to \<open>Buffer.from\<close>, and only strings to
  \<open>say\<close>.\<close>

definition sample_parse :: "string \<Rightarrow> jsval option" where
  "sample_parse d =
     (if d = frame_connected
      then Some (JObj [(''event'', JStr ''connected''), (''protocol'', JStr ''Call''),
                       (''version'', JStr ''0.2.0'')])
      else if d = frame_start
      then Some (JObj [(''event'', JStr ''start''),
                       (''start'', JObj [(''callSid'', JStr ''CA123'')])])
      else if d = frame_start_again
      then Some (JObj [(''event'', JStr ''start''),
                       (''start'', JObj [(''callSid'', JStr ''CA456'')])])
      else if d = frame_media
      then Some (JObj [(''event'', JStr ''media''),
                       (''media'', JObj [(''payload'', JStr ''fv8='')])])
      else if d = frame_media_without_payload
      then Some (JObj [(''event'', JStr ''media''), (''media'', JObj [])])
      else if d = frame_closed then Some (JObj [(''event'', JStr ''closed'')])
      else if d = drop 2 frame_result then Some (JObj [(''text'', JStr ''hello'')])
      else None)"

definition sample_base64 :: "string \<Rightarrow> byte list" where
  "sample_base64 p = (if p = ''fv8='' then [0x7e, 0xff] else [])"

definition sample_runtime :: runtime where
  "sample_runtime =
     \<lparr>JSON_parse = sample_parse, base64 = sample_base64,
      Buffer_from_other = (\<lambda>v. Inl TypeError), VoiceResponse_say_other = (\<lambda>v. []),
      env_AMIVOICE_API_KEY = Some ''KEY''\<rparr>"

definition sample_completion :: jsval where
  "sample_completion =
     JObj [(''data'', JObj [(''choices'',
       JArr [JObj [(''message'',
         JObj [(''role'', JStr ''assistant''), (''content'', JStr ''hi'')])]])])]"

text \<open>Three states of a Speech Session with the key \<open>KEY\<close>: after a failed connect;
  after a connect on connection 7 and the provider's \<open>s\<close>; and after the provider's
  \<open>e\<close> and a further \<open>s\<close> on that connection.\<close>

definition disconnected :: amivoice where
  "disconnected =
     \<lparr>apiKey = Some ''KEY'', isReady = False, isStarted = None, connection = None,
      listeners = 0, pending = 0, listening = []\<rparr>"

definition started :: amivoice where
  "started =
     \<lparr>apiKey = Some ''KEY'', isReady = True, isStarted = Some True, connection = Some 7,
      listeners = 0, pending = 0, listening = [7]\<rparr>"

definition started_not_ready :: amivoice where
  "started_not_ready =
     \<lparr>apiKey = Some ''KEY'', isReady = False, isStarted = Some True, connection = Some 7,
      listeners = 0, pending = 0, listening = [7]\<rparr>"

text \<open>The object the \<open>start\<close> case leaves on the heap: constructed, its connect attempt in
  flight, the transcription listener added.\<close>

definition fresh_session :: "runtime \<Rightarrow> amivoice" where
  "fresh_session rt =
     \<lparr>apiKey = env_AMIVOICE_API_KEY rt, isReady = False, isStarted = None, connection = None,
      listeners = 1, pending = 1, listening = []\<rparr>"

text \<open>A call after \<open>start\<close> (call \<open>CA123\<close>), the provider's connect on connection 7 and its
  \<open>s\<close>; and the same call after a second \<open>start\<close> (call \<open>CA456\<close>).\<close>

definition in_call :: world where
  "in_call =
     \<lparr>stream = \<lparr>messageCount = 1, amiVoiceConnection = Some 0, callSid = JStr ''CA123''\<rparr>,
      heap = [\<lparr>apiKey = Some ''KEY'', isReady = True, isStarted = Some True,
               connection = Some 7, listeners = 1, pending = 0, listening = [7]\<rparr>],
      awaiting = [], updating = []\<rparr>"

definition restarted :: world where
  "restarted =
     \<lparr>stream = \<lparr>messageCount = 2, amiVoiceConnection = Some 1, callSid = JStr ''CA456''\<rparr>,
      heap = [\<lparr>apiKey = Some ''KEY'', isReady = True, isStarted = Some True,
               connection = Some 7, listeners = 1, pending = 0, listening = [7]\<rparr>,
              fresh_session sample_runtime],
      awaiting = [], updating = []\<rparr>"

section \<open>Observations on traces\<close>

text \<open>The frames written to the provider connection \<open>c\<close>, in order.\<close>

fun writes_on :: "conn \<Rightarrow> effect list \<Rightarrow> frame list" where
  "writes_on c [] = []"
| "writes_on c (ConnSend c' f # es) = (if c' = c then f # writes_on c es else writes_on c es)"
| "writes_on c (e # es) = writes_on c es"

text \<open>The number of connect attempts.\<close>

fun connects :: "effect list \<Rightarrow> nat" where
  "connects [] = 0"
| "connects (ClientConnect url # es) = Suc (connects es)"
| "connects (e # es) = connects es"

text \<open>
  The invariant of a Speech Session with key \<open>k\<close> whose effects so far are \<open>E\<close>. Until
  the connect callback the object has no connection, no handler and no flag set, and has
  written nothing. From then on no client is pending, and what it has written went to
  its one connection: the start command first, and never again.
\<close>

definition session_inv :: "string option \<Rightarrow> amivoice \<Rightarrow> effect list \<Rightarrow> bool" where
  "session_inv k s E =
     (apiKey s = k \<and> pending s \<le> 1 \<and>
      (case connection s of
         None \<Rightarrow> isStarted s = None \<and> \<not> isReady s \<and> listening s = [] \<and>
                 (\<forall>c. writes_on c E = [])
       | Some c \<Rightarrow> pending s = 0 \<and>
                 (\<exists>rest. writes_on c E = Utf8 (start_command k) # rest \<and>
                         Utf8 (start_command k) \<notin> set rest) \<and>
                 (\<forall>c'. c' \<noteq> c \<longrightarrow> writes_on c' E = [])))"

definition start_first :: "string option \<Rightarrow> frame list \<Rightarrow> bool" where
  "start_first k fs =
     (fs = [] \<or>
      (\<exists>rest. fs = Utf8 (start_command k) # rest \<and> Utf8 (start_command k) \<notin> set rest))"

text \<open>The stream's reference, when it is not \<open>null\<close>, is an address of the heap.\<close>

definition ref_ok :: "world \<Rightarrow> bool" where
  "ref_ok w =
     (case amiVoiceConnection (stream w) of None \<Rightarrow> True | Some a \<Rightarrow> a < length (heap w))"

section \<open>Basic facts\<close>

declare copy_loop.simps [simp del]

lemma writes_on_append [simp]: "writes_on c (xs @ ys) = writes_on c xs @ writes_on c ys"
  by (induction c xs rule: writes_on.induct) auto

lemma connects_append [simp]: "connects (xs @ ys) = connects xs + connects ys"
  by (induction xs rule: connects.induct) auto

lemma effects_of_preceded [simp]: "effects_of (preceded es r) = es @ effects_of r"
  by (cases r) auto

lemma preceded_Done_iff:
  "preceded es r = Done a effs \<longleftrightarrow> (\<exists>es'. r = Done a es' \<and> effs = es @ es')"
  by (cases r) auto

lemma preceded_Fault_iff:
  "preceded es r = Fault x effs \<longleftrightarrow> (\<exists>es'. r = Fault x es' \<and> effs = es @ es')"
  by (cases r) auto

lemma start_command_not_e [simp]: "start_command k \<noteq> ''e''"
  by (simp add: start_command_def)

lemmas session_simps =
  session_def AmiVoice_new_def AmiVoice_connect_def AmiVoice_start_def AmiVoice_send_def
  AmiVoice_close_def client_connectFailed_def client_connect_def connection_message_def
  connection_error_def connection_close_def start_command_def AMIVOICE_WEBSOCKET_URL_def

lemmas world_simps =
  processMessage_def switch_event_def case_start_def case_media_def VoiceStream_close_def
  connection_closed_by_twilio_def at_object_def provider_def receivedTranscription_def
  receivedTranscription_resumed_def chatGptMessage_def update_then_def
  accepted_def VoiceStream_new_def sample_runtime_def sample_parse_def sample_base64_def
  frame_connected_def frame_start_def frame_start_again_def frame_media_def
  frame_media_without_payload_def frame_closed_def frame_result_def

subsection \<open>The copy loop of \<open>send\<close>\<close>

text \<open>After \<open>i\<close> rounds the first \<open>i + 1\<close> cells are settled; the loop fills the rest
  from the buffer.\<close>

lemma copy_loop_spec:
  "i \<le> length buff \<Longrightarrow> length out = Suc (length buff) \<Longrightarrow>
   copy_loop buff i out = take (Suc i) out @ drop i buff"
proof (induction buff i out rule: copy_loop.induct)
  case (1 buff i outData)
  show ?case
  proof (cases "i < length buff")
    case True
    let ?out = "outData[1 + i := buff ! i]"
    have len: "length ?out = Suc (length buff)" using "1.prems" by simp
    have "copy_loop buff i outData = copy_loop buff (Suc i) ?out"
      using True by (subst copy_loop.simps) simp
    also have "\<dots> = take (Suc (Suc i)) ?out @ drop (Suc i) buff"
      using "1.IH" [OF True] True len by simp
    also have "take (Suc (Suc i)) ?out = take (Suc i) outData @ [buff ! i]"
      using True "1.prems" by (simp add: take_Suc_conv_app_nth)
    finally show ?thesis
      using True by (simp add: Cons_nth_drop_Suc)
  next
    case False
    then have "i = length buff" using "1.prems" by simp
    then show ?thesis using "1.prems" by (subst copy_loop.simps) simp
  qed
qed

lemma audio_frame_eq: "audio_frame buff = 0x70 # buff"
  by (simp add: audio_frame_def copy_loop_spec)

subsection \<open>The invariant of a Speech Session\<close>

lemma send_inv:
  assumes "session_inv k s E" "AmiVoice_send rt payload s = Done s' effs"
  shows "session_inv k s' (E @ effs)"
  using assms
  by (auto simp: session_inv_def AmiVoice_send_def split: if_splits sum.splits option.splits)

lemma close_inv:
  assumes "session_inv k s E" "AmiVoice_close s = Done s' effs"
  shows "session_inv k s' (E @ effs)"
  using assms
  by (auto simp: session_inv_def AmiVoice_close_def split: if_splits sum.splits option.splits)

lemma connectFailed_inv:
  assumes "session_inv k s E" "client_connectFailed err s = Done s' effs"
  shows "session_inv k s' (E @ effs)"
  using assms
  by (auto simp: session_inv_def client_connectFailed_def
      split: if_splits sum.splits option.splits)

lemma connect_inv:
  assumes "session_inv k s E" "client_connect c s = Done s' effs"
  shows "session_inv k s' (E @ effs)"
  using assms
  by (auto simp: session_inv_def client_connect_def AmiVoice_start_def AmiVoice_connect_def
      preceded_Done_iff split: if_splits sum.splits option.splits)

lemma message_inv:
  assumes "session_inv k s E" "connection_message rt c m s = Done s' effs"
  shows "session_inv k s' (E @ effs)"
  using assms
  by (auto simp: session_inv_def connection_message_def Let_def
      split: if_splits sum.splits option.splits frame.splits)

lemma error_inv:
  assumes "session_inv k s E" "connection_error c err s = Done s' effs"
  shows "session_inv k s' (E @ effs)"
  using assms
  by (auto simp: session_inv_def connection_error_def split: if_splits option.splits)

lemma closed_inv:
  assumes "session_inv k s E" "connection_close c s = Done s' effs"
  shows "session_inv k s' (E @ effs)"
  using assms
  by (auto simp: session_inv_def connection_close_def split: if_splits option.splits)

lemma dispatch_inv:
  assumes "session_inv k s E" "dispatch rt e s = Done s' effs"
  shows "session_inv k s' (E @ effs)"
proof (cases e)
  case (Call_send p)
  then show ?thesis using assms send_inv by simp
next
  case Call_close
  then show ?thesis using assms close_inv by simp
next
  case (Callback cb)
  then show ?thesis using assms
    by (cases cb) (auto intro: connectFailed_inv connect_inv message_inv error_inv closed_inv)
qed

text \<open>What is performed before an exception is never a write.\<close>

lemma dispatch_Fault_no_write:
  assumes "dispatch rt e s = Fault x effs"
  shows "writes_on c effs = []"
proof (cases e)
  case (Call_send p)
  then show ?thesis using assms
    by (auto simp: AmiVoice_send_def split: if_splits sum.splits option.splits)
next
  case Call_close
  then show ?thesis using assms
    by (auto simp: AmiVoice_close_def split: if_splits sum.splits option.splits)
next
  case (Callback cb)
  then show ?thesis using assms
    by (cases cb)
       (auto simp: client_connectFailed_def client_connect_def AmiVoice_start_def
          AmiVoice_connect_def connection_message_def connection_error_def
          connection_close_def Let_def preceded_Fault_iff
          split: if_splits sum.splits option.splits frame.splits)
qed

lemma run_inv:
  "session_inv k s E \<Longrightarrow> run rt calls s = Done s' effs \<Longrightarrow> session_inv k s' (E @ effs)"
proof (induction calls arbitrary: s E effs)
  case Nil
  then show ?case by simp
next
  case (Cons e es)
  from Cons.prems(2) obtain s1 effs1 effs2 where
    d: "dispatch rt e s = Done s1 effs1" and r: "run rt es s1 = Done s' effs2"
    and eq: "effs = effs1 @ effs2"
    by (auto simp: preceded_Done_iff split: outcome.splits)
  have "session_inv k s1 (E @ effs1)" using dispatch_inv [OF Cons.prems(1) d] .
  from Cons.IH [OF this r] show ?case using eq by simp
qed

lemma inv_start_first: "session_inv k s E \<Longrightarrow> start_first k (writes_on c E)"
  by (cases "connection s"; cases "the (connection s) = c")
     (auto simp: session_inv_def start_first_def)

lemma run_start_first:
  "session_inv k s E \<Longrightarrow> start_first k (writes_on c (E @ effects_of (run rt calls s)))"
proof (induction calls arbitrary: s E)
  case Nil
  then show ?case using inv_start_first by simp
next
  case (Cons e es)
  show ?case
  proof (cases "dispatch rt e s")
    case (Done s1 effs1)
    have "session_inv k s1 (E @ effs1)" using dispatch_inv [OF Cons.prems Done] .
    from Cons.IH [OF this] show ?thesis using Done by simp
  next
    case (Fault x effs1)
    then show ?thesis
      using dispatch_Fault_no_write [OF Fault, of c] inv_start_first [OF Cons.prems, of c]
      by simp
  qed
qed

lemma new_inv: "AmiVoice_new k = Done s effs \<Longrightarrow> session_inv k s effs"
  by (auto simp: AmiVoice_new_def AmiVoice_connect_def session_inv_def)

lemma new_Done: "\<exists>s. AmiVoice_new k = Done s [ClientConnect AMIVOICE_WEBSOCKET_URL]"
  by (simp add: AmiVoice_new_def AmiVoice_connect_def)

lemma session_inv_reached:
  assumes "session rt k calls = Done s effs"
  shows "session_inv k s effs"
proof -
  obtain s0 where n: "AmiVoice_new k = Done s0 [ClientConnect AMIVOICE_WEBSOCKET_URL]"
    using new_Done by blast
  with assms obtain effs' where r: "run rt calls s0 = Done s effs'"
    and eq: "effs = [ClientConnect AMIVOICE_WEBSOCKET_URL] @ effs'"
    by (auto simp: session_def preceded_Done_iff)
  show ?thesis using run_inv [OF new_inv [OF n] r] eq by simp
qed

lemma session_start_first:
  "start_first k (writes_on c (effects_of (session rt k calls)))"
proof -
  obtain s0 where n: "AmiVoice_new k = Done s0 [ClientConnect AMIVOICE_WEBSOCKET_URL]"
    using new_Done by blast
  show ?thesis using run_start_first [OF new_inv [OF n], of c rt calls] n
    by (simp add: session_def)
qed

lemma inv_started_connected:
  "session_inv k s E \<Longrightarrow> truthy (isStarted s) \<Longrightarrow> \<exists>c. connection s = Some c"
  by (cases "connection s") (auto simp: session_inv_def)

subsection \<open>Connect attempts\<close>

lemma dispatch_no_connect: "connects (effects_of (dispatch rt e s)) = 0"
proof (cases e)
  case (Call_send p)
  then show ?thesis
    by (auto simp: AmiVoice_send_def split: sum.splits option.splits)
next
  case Call_close
  then show ?thesis
    by (auto simp: AmiVoice_close_def split: option.splits)
next
  case (Callback cb)
  then show ?thesis
    by (cases cb)
       (auto simp: client_connectFailed_def client_connect_def AmiVoice_start_def
          connection_message_def connection_error_def connection_close_def Let_def
          split: sum.splits option.splits frame.splits)
qed

lemma run_no_connect: "connects (effects_of (run rt calls s)) = 0"
proof (induction calls arbitrary: s)
  case Nil
  show ?case by simp
next
  case (Cons e es)
  show ?case
    using dispatch_no_connect [of rt e s] Cons.IH
    by (cases "dispatch rt e s") auto
qed

subsection \<open>The sample states are reached\<close>

lemma reach_disconnected:
  "session sample_runtime (Some ''KEY'') [Callback (On_connectFailed ''refused'')] =
   Done disconnected
     [ClientConnect ''wss://acp-api.amivoice.com/v1/'',
      Log [JStr ''AmiVoice: '', JStr ''refused'']]"
  by (simp add: session_simps disconnected_def)

lemma reach_started:
  "session sample_runtime (Some ''KEY'')
     [Callback (On_connect 7), Callback (On_message 7 (Utf8 ''s''))] =
   Done started
     [ClientConnect ''wss://acp-api.amivoice.com/v1/'',
      Log [JStr ''AmiVoice: websocket client connected''],
      ConnSend 7 (Utf8 ''s mulaw -a-general authorization=KEY''),
      Log [JStr ''AmiVoice: [s] Connection established'']]"
  by (simp add: session_simps started_def)

lemma reach_sent:
  "session sample_runtime (Some ''KEY'')
     [Callback (On_connect 7), Callback (On_message 7 (Utf8 ''s'')),
      Call_send (JStr ''fv8='')] =
   Done started
     [ClientConnect ''wss://acp-api.amivoice.com/v1/'',
      Log [JStr ''AmiVoice: websocket client connected''],
      ConnSend 7 (Utf8 ''s mulaw -a-general authorization=KEY''),
      Log [JStr ''AmiVoice: [s] Connection established''],
      ConnSend 7 (Binary [0x70, 0x7e, 0xff])]"
  by (simp add: session_simps started_def audio_frame_eq sample_runtime_def sample_base64_def)

lemma reach_started_not_ready:
  "session sample_runtime (Some ''KEY'')
     [Callback (On_connect 7), Callback (On_message 7 (Utf8 ''s'')),
      Callback (On_message 7 (Utf8 ''e'')), Callback (On_message 7 (Utf8 ''s''))] =
   Done started_not_ready
     [ClientConnect ''wss://acp-api.amivoice.com/v1/'',
      Log [JStr ''AmiVoice: websocket client connected''],
      ConnSend 7 (Utf8 ''s mulaw -a-general authorization=KEY''),
      Log [JStr ''AmiVoice: [s] Connection established''],
      Log [JStr ''AmiVoice: [e] Connection closed''],
      Log [JStr ''AmiVoice: [s] Connection established'']]"
  by (simp add: session_simps started_not_ready_def)

lemma reach_in_call:
  "play sample_runtime
     [Twilio_message (Utf8 frame_start), Provider 0 (On_connect 7),
      Provider 0 (On_message 7 (Utf8 ''s''))] accepted =
   Done in_call
     [Log [JStr ''Twilio WS: Start event received: '',
           JObj [(''event'', JStr ''start''), (''start'', JObj [(''callSid'', JStr ''CA123'')])]],
      ClientConnect ''wss://acp-api.amivoice.com/v1/'',
      Log [JStr ''AmiVoice: websocket client connected''],
      ConnSend 7 (Utf8 ''s mulaw -a-general authorization=KEY''),
      Log [JStr ''AmiVoice: [s] Connection established'']]"
  by (simp add: world_simps session_simps in_call_def)

subsection \<open>References stay valid\<close>

lemma receivedTranscription_frame:
  "receivedTranscription v sid w = (w', es) \<Longrightarrow> stream w' = stream w \<and> heap w' = heap w"
  by (auto simp: receivedTranscription_def split: sum.splits)

lemma notify_frame:
  "notify n v w = (w', es) \<Longrightarrow> stream w' = stream w \<and> heap w' = heap w"
proof (induction n arbitrary: w w' es)
  case 0
  then show ?case by simp
next
  case (Suc n)
  obtain w1 es1 where r: "receivedTranscription v (callSid (stream w)) w = (w1, es1)"
    by (cases "receivedTranscription v (callSid (stream w)) w")
  obtain w2 es2 where n: "notify n v w1 = (w2, es2)" by (cases "notify n v w1")
  from Suc.prems r n have "w' = w2" by simp
  then show ?case using Suc.IH [OF n] receivedTranscription_frame [OF r] by simp
qed

lemma deliver_frame:
  "deliver a es w = (w', es') \<Longrightarrow> stream w' = stream w \<and> heap w' = heap w"
proof (induction a es w arbitrary: w' es' rule: deliver.induct)
  case (1 a w)
  then show ?case by simp
next
  case (2 a name v es w)
  obtain w1 es1 where n:
    "(if name = ''transcription'' then notify (listeners (heap w ! a)) v w else (w, [])) =
     (w1, es1)"
    by (cases "if name = ''transcription'' then notify (listeners (heap w ! a)) v w else (w, [])")
  obtain w2 es2 where d: "deliver a es w1 = (w2, es2)" by (cases "deliver a es w1")
  have f1: "stream w1 = stream w \<and> heap w1 = heap w"
    using n notify_frame by (auto split: if_splits)
  from "2.prems" n d have "w' = w2" by simp
  moreover have "stream w2 = stream w1 \<and> heap w2 = heap w1"
    using "2.IH" [OF n [symmetric] d] .
  ultimately show ?case using f1 by simp
qed (auto split: prod.splits)

lemma at_object_ref_ok:
  "ref_ok w \<Longrightarrow> at_object a m w = Done w' es \<Longrightarrow> ref_ok w'"
  by (auto simp: at_object_def ref_ok_def split: if_splits outcome.splits option.splits)

lemma close_ref_ok:
  "ref_ok w \<Longrightarrow> VoiceStream_close w = Done w' es \<Longrightarrow> ref_ok w'"
  by (auto simp: VoiceStream_close_def preceded_Done_iff split: option.splits
      dest: at_object_ref_ok)

lemma case_start_ref_ok: "case_start rt data w = Done w' es \<Longrightarrow> ref_ok w'"
  by (auto simp: case_start_def preceded_Done_iff AmiVoice_new_def AmiVoice_connect_def
      ref_ok_def split: sum.splits)

lemma case_media_ref_ok: "ref_ok w \<Longrightarrow> case_media rt data w = Done w' es \<Longrightarrow> ref_ok w'"
  by (auto simp: case_media_def split: sum.splits option.splits dest: at_object_ref_ok)

lemma switch_event_ref_ok:
  "ref_ok w \<Longrightarrow> switch_event rt event data w = Done w' es \<Longrightarrow> ref_ok w'"
  by (auto simp: switch_event_def preceded_Done_iff split: if_splits
      dest: case_start_ref_ok case_media_ref_ok close_ref_ok)

lemma processMessage_ref_ok:
  assumes "ref_ok w" "processMessage rt m w = Done w' es"
  shows "ref_ok w'"
proof (cases m)
  case (Binary b)
  then show ?thesis using assms by (simp add: processMessage_def)
next
  case (Utf8 d)
  with assms(2) obtain data event w1 where
    sw: "switch_event rt event data w = Done w1 es" and
    w': "w' = w1\<lparr>stream := (stream w1)\<lparr>messageCount := Suc (messageCount (stream w1))\<rparr>\<rparr>"
    by (auto simp: processMessage_def split: option.splits sum.splits outcome.splits)
  have "ref_ok w1" using switch_event_ref_ok [OF assms(1) sw] .
  then show ?thesis using w' by (auto simp: ref_ok_def split: option.splits)
qed

lemma provider_ref_ok:
  assumes "ref_ok w" "provider rt a cb w = Done w' es"
  shows "ref_ok w'"
proof (cases "a < length (heap w)")
  case False
  then show ?thesis using assms by (simp add: provider_def)
next
  case True
  with assms(2) obtain s es0 where
    d: "deliver a es0 (w\<lparr>heap := (heap w)[a := s]\<rparr>) = (w', es)"
    by (auto simp: provider_def split: outcome.splits prod.splits)
  from deliver_frame [OF d] show ?thesis
    using assms(1) by (auto simp: ref_ok_def split: option.splits)
qed

lemma step_ref_ok:
  assumes "ref_ok w" "step rt e w = Done w' es"
  shows "ref_ok w'"
proof (cases e)
  case (Twilio_message m)
  then show ?thesis using assms processMessage_ref_ok by simp
next
  case Twilio_close
  then show ?thesis using assms
    by (auto simp: connection_closed_by_twilio_def preceded_Done_iff dest: close_ref_ok)
next
  case (Provider a cb)
  then show ?thesis using assms provider_ref_ok by simp
next
  case (Completion_settled i settled)
  then show ?thesis using assms
    by (auto simp: receivedTranscription_resumed_def ref_ok_def
        split: if_splits option.splits sum.splits prod.splits)
next
  case (Update_settled i ok)
  then show ?thesis using assms by (auto simp: ref_ok_def split: if_splits option.splits)
qed

lemma play_ref_ok: "ref_ok w \<Longrightarrow> play rt evs w = Done w' es \<Longrightarrow> ref_ok w'"
proof (induction evs arbitrary: w es)
  case Nil
  then show ?case by simp
next
  case (Cons e evs)
  from Cons.prems(2) obtain w1 es1 es2 where
    s: "step rt e w = Done w1 es1" and p: "play rt evs w1 = Done w' es2"
    by (auto simp: preceded_Done_iff split: outcome.splits)
  show ?case using Cons.IH [OF step_ref_ok [OF Cons.prems(1) s] p] .
qed

lemma play_reference_valid:
  assumes "play rt evs accepted = Done w es" and "amiVoiceConnection (stream w) = Some a"
  shows "a < length (heap w)"
proof -
  have "ref_ok accepted" by (simp add: ref_ok_def accepted_def VoiceStream_new_def)
  from play_ref_ok [OF this assms(1)] show ?thesis using assms(2) by (simp add: ref_ok_def)
qed

text \<open>With a Speech Session, \<open>close()\<close> of the stream logs the message count and then
  does what \<open>close()\<close> of the session does.\<close>

lemma VoiceStream_close_with_session:
  assumes "amiVoiceConnection (stream w) = Some a" and "a < length (heap w)"
  shows "effects_of (VoiceStream_close w) =
           Log [JStr ''Twilio WS: Closed. Received a total of ['',
                JNum (int (messageCount (stream w))), JStr ''] messages'']
           # effects_of (AmiVoice_close (heap w ! a))"
  using assms by (simp add: VoiceStream_close_def at_object_def split: outcome.splits)

subsection \<open>A stream without a Speech Session\<close>

text \<open>While the reference is \<open>null\<close>, every \<open>media\<close> event and every \<open>close()\<close> ends in a
  TypeError, whatever the frame carries and whatever the runtime is.\<close>

lemma media_without_session:
  assumes "amiVoiceConnection (stream w) = None" and "JSON_parse rt d = Some data"
    and "js_get data ''event'' = Inr (JStr ''media'')"
  shows "processMessage rt (Utf8 d) w = Fault TypeError []"
  using assms by (simp add: processMessage_def switch_event_def case_media_def)

lemma close_without_session:
  assumes "amiVoiceConnection (stream w) = None"
  shows "VoiceStream_close w =
           Fault TypeError
             [Log [JStr ''Twilio WS: Closed. Received a total of ['',
                   JNum (int (messageCount (stream w))), JStr ''] messages'']]"
  using assms by (simp add: VoiceStream_close_def)

subsection \<open>The two halves of \<open>receivedTranscription\<close>\<close>

lemma receivedTranscription_requests_completion:
  assumes "js_get data ''body'' = Inr body" and "js_get body ''text'' = Inr text"
  shows "receivedTranscription data sid w =
           (w\<lparr>awaiting := awaiting w @ [sid]\<rparr>,
            [Log [JStr ''Twilio WS: Received message from AmiVoice: '', text],
             CreateChatCompletion ''gpt-3.5-turbo'' [(''user'', text)]])"
  using assms by (simp add: receivedTranscription_def)

lemma receivedTranscription_resumed_updates_call:
  assumes "chatGptMessage completion = Inr (JStr msg)"
  shows "receivedTranscription_resumed rt sid (Some completion) w =
           (w\<lparr>updating := updating w @ [JStr msg]\<rparr>,
            [CallsUpdate sid [Say ''Polly.Takumi-Neural'' ''ja-JP'' msg, Pause 40]])"
  using assms
  by (simp add: receivedTranscription_resumed_def TWILIO_VOICE_def TWILIO_LANGUAGE_def)

text \<open>A started session refuses \<open>undefined\<close> as a payload, whatever the runtime.\<close>

lemma send_undefined_started:
  "truthy (isStarted s) \<Longrightarrow> AmiVoice_send rt JUndefined s = Fault TypeError []"
  by (simp add: AmiVoice_send_def)

section \<open>The claims\<close>

subsection \<open>C1: a \<open>media\<close> event before any \<open>start\<close>\<close>

text \<open>
  Claim C1 says that a \<open>media\<close> event processed before any \<open>start\<close> event writes nothing
  to a provider connection and completes without fault. The code writes nothing, but it
  does not complete: \<open>amiVoiceConnection\<close> is still \<open>null\<close>, and
  \<open>this.amiVoiceConnection.send(...)\<close> throws a TypeError. On a connection just accepted,
  the frames \<open>connected\<close> and \<open>media\<close> end in that exception; the only effect is the log
  line of \<open>connected\<close>.
\<close>

theorem media_before_start_throws:
  "play sample_runtime
     [Twilio_message (Utf8 frame_connected), Twilio_message (Utf8 frame_media)] accepted =
   Fault TypeError
     [Log [JStr ''Twilio WS: Connected event received: '',
           JObj [(''event'', JStr ''connected''), (''protocol'', JStr ''Call''),
                 (''version'', JStr ''0.2.0'')]]]"
  by (simp add: world_simps)

subsection \<open>C2: \<open>close()\<close> of a Call Session that never started\<close>

text \<open>
  Claim C2 says that \<open>close()\<close> on a Call Session that never received \<open>start\<close> attempts no
  teardown and completes without fault. The code logs the message count and then calls
  \<open>this.amiVoiceConnection.close()\<close> on \<open>null\<close>, which throws a TypeError: both after a
  \<open>closed\<close> event and after the close of the inbound connection.
\<close>

theorem close_without_session_throws:
  "play sample_runtime
     [Twilio_message (Utf8 frame_connected), Twilio_message (Utf8 frame_closed)] accepted =
   Fault TypeError
     [Log [JStr ''Twilio WS: Connected event received: '',
           JObj [(''event'', JStr ''connected''), (''protocol'', JStr ''Call''),
                 (''version'', JStr ''0.2.0'')]],
      Log [JStr ''Twilio WS: Close event received: '', JObj [(''event'', JStr ''closed'')]],
      Log [JStr ''Twilio WS: Closed. Received a total of ['', JNum 1, JStr ''] messages'']] \<and>
   play sample_runtime [Twilio_close] accepted =
   Fault TypeError
     [Log [JStr ''Twilio WS: Connection closed by Twillio''],
      Log [JStr ''Twilio WS: Closed. Received a total of ['', JNum 0, JStr ''] messages'']]"
  by (simp add: world_simps)

subsection \<open>C3: no reconnect\<close>

text \<open>
  Claim C3 says that, after a connect failure, the next \<open>send()\<close> or \<open>close()\<close> triggers
  exactly one reconnect attempt. It does not: in the state a failed connect leaves,
  neither call issues a connect attempt.
\<close>

theorem send_and_close_after_connect_failure_do_not_reconnect:
  "session sample_runtime (Some ''KEY'') [Callback (On_connectFailed ''refused'')] =
     Done disconnected
       [ClientConnect ''wss://acp-api.amivoice.com/v1/'',
        Log [JStr ''AmiVoice: '', JStr ''refused'']] \<and>
   connects (effects_of (AmiVoice_send sample_runtime (JStr ''fv8='') disconnected)) \<noteq> 1 \<and>
   connects (effects_of (AmiVoice_close disconnected)) \<noteq> 1"
  by (simp add: reach_disconnected) (simp add: AmiVoice_send_def AmiVoice_close_def disconnected_def)

text \<open>
  Claim C3 as amended: in no state does \<open>send()\<close> or \<open>close()\<close> issue a connect attempt,
  and in every run of a Speech Session, whatever is called and whatever calls back, the
  connect attempt of the constructor is the only one: there is no reconnect and no retry,
  scheduled or lazy.
\<close>

theorem no_reconnect_on_send_or_close:
  "connects (effects_of (AmiVoice_send rt payload s)) = 0 \<and>
   connects (effects_of (AmiVoice_close s)) = 0 \<and>
   connects (effects_of (session rt k calls)) = 1"
proof -
  have a: "connects (effects_of (AmiVoice_send rt payload s)) = 0"
    using dispatch_no_connect [of rt "Call_send payload" s] by simp
  have b: "connects (effects_of (AmiVoice_close s)) = 0"
    using dispatch_no_connect [of rt Call_close s] by simp
  obtain s0 where n: "AmiVoice_new k = Done s0 [ClientConnect AMIVOICE_WEBSOCKET_URL]"
    using new_Done by blast
  have c: "connects (effects_of (session rt k calls)) = 1"
    using run_no_connect [of rt calls s0] n by (simp add: session_def)
  from a b c show ?thesis by simp
qed

subsection \<open>C4: the audio frame\<close>

text \<open>
  Claim C4: in every state a Speech Session can reach in which it is started, \<open>send\<close> of
  a base64 string performs exactly one write, a binary frame on the session's
  connection, whose first byte is \<open>0x70\<close> and whose other bytes are the decoding of the
  string.
\<close>

theorem send_started_writes_marker_and_audio:
  assumes "session rt k calls = Done s effs" and "truthy (isStarted s)"
  shows "\<exists>c. connection s = Some c \<and>
             AmiVoice_send rt (JStr payload) s =
               Done s [ConnSend c (Binary (0x70 # base64 rt payload))]"
proof -
  have "session_inv k s effs" using assms(1) by (rule session_inv_reached)
  then obtain c where "connection s = Some c"
    using assms(2) inv_started_connected by blast
  then show ?thesis using assms(2) by (simp add: AmiVoice_send_def audio_frame_eq)
qed

text \<open>Witness of C4: the session started on connection 7 sends \<open>fv8=\<close> as the bytes
  70 7e ff.\<close>

theorem send_started_writes_marker_and_audio_witness:
  "truthy (isStarted started) \<and>
   AmiVoice_send sample_runtime (JStr ''fv8='') started =
     Done started [ConnSend 7 (Binary [0x70, 0x7e, 0xff])]"
proof -
  have t: "truthy (isStarted started)" by (simp add: started_def)
  from send_started_writes_marker_and_audio [OF reach_started t, of "''fv8=''"]
  show ?thesis using t by (simp add: started_def sample_runtime_def sample_base64_def)
qed

subsection \<open>C5: audio outside the started state\<close>

text \<open>
  Claim C5 says that \<open>send\<close> raises no error to its caller in any state, for every
  payload. For a payload that is not a string it does: a \<open>media\<close> frame without a
  \<open>payload\<close> member makes \<open>processMessage\<close> call \<open>send(undefined)\<close>, and in the started state
  \<open>Buffer.from(undefined, "base64")\<close> throws a TypeError out of \<open>send\<close>.
\<close>

theorem send_of_undefined_throws_when_started:
  "session sample_runtime (Some ''KEY'')
     [Callback (On_connect 7), Callback (On_message 7 (Utf8 ''s''))] =
     Done started
       [ClientConnect ''wss://acp-api.amivoice.com/v1/'',
        Log [JStr ''AmiVoice: websocket client connected''],
        ConnSend 7 (Utf8 ''s mulaw -a-general authorization=KEY''),
        Log [JStr ''AmiVoice: [s] Connection established'']] \<and>
   AmiVoice_send sample_runtime JUndefined started = Fault TypeError [] \<and>
   play sample_runtime
     [Twilio_message (Utf8 frame_start), Provider 0 (On_connect 7),
      Provider 0 (On_message 7 (Utf8 ''s'')),
      Twilio_message (Utf8 frame_media_without_payload)] accepted =
     Fault TypeError
       [Log [JStr ''Twilio WS: Start event received: '',
             JObj [(''event'', JStr ''start''),
                   (''start'', JObj [(''callSid'', JStr ''CA123'')])]],
        ClientConnect ''wss://acp-api.amivoice.com/v1/'',
        Log [JStr ''AmiVoice: websocket client connected''],
        ConnSend 7 (Utf8 ''s mulaw -a-general authorization=KEY''),
        Log [JStr ''AmiVoice: [s] Connection established'']]"
proof -
  have a: "AmiVoice_send sample_runtime JUndefined started = Fault TypeError []"
    by (simp add: AmiVoice_send_def started_def)
  have b: "play sample_runtime
     [Twilio_message (Utf8 frame_start), Provider 0 (On_connect 7),
      Provider 0 (On_message 7 (Utf8 ''s'')),
      Twilio_message (Utf8 frame_media_without_payload)] accepted =
     Fault TypeError
       [Log [JStr ''Twilio WS: Start event received: '',
             JObj [(''event'', JStr ''start''),
                   (''start'', JObj [(''callSid'', JStr ''CA123'')])]],
        ClientConnect ''wss://acp-api.amivoice.com/v1/'',
        Log [JStr ''AmiVoice: websocket client connected''],
        ConnSend 7 (Utf8 ''s mulaw -a-general authorization=KEY''),
        Log [JStr ''AmiVoice: [s] Connection established'']]"
    by (simp add: world_simps session_simps)
  from reach_started a b show ?thesis by simp
qed

text \<open>
  Claim C5 as amended: when the session is not started, \<open>send\<close> of any payload writes
  nothing, changes nothing and raises no error; and in every state a Speech Session can
  reach, \<open>send\<close> of a payload that is a string returns to its caller without an exception.
\<close>

theorem send_not_started_writes_nothing:
  "(\<not> truthy (isStarted s) \<longrightarrow> AmiVoice_send rt payload s = Done s []) \<and>
   (session rt k calls = Done s effs \<longrightarrow> (\<exists>out. AmiVoice_send rt (JStr p) s = Done s out))"
proof (intro conjI impI)
  assume "\<not> truthy (isStarted s)"
  then show "AmiVoice_send rt payload s = Done s []" by (simp add: AmiVoice_send_def)
next
  assume r: "session rt k calls = Done s effs"
  show "\<exists>out. AmiVoice_send rt (JStr p) s = Done s out"
  proof (cases "truthy (isStarted s)")
    case True
    have "session_inv k s effs" using r by (rule session_inv_reached)
    then obtain c where "connection s = Some c" using True inv_started_connected by blast
    then show ?thesis using True by (simp add: AmiVoice_send_def)
  next
    case False
    then show ?thesis by (simp add: AmiVoice_send_def)
  qed
qed

text \<open>Witness of C5: after a failed connect the session is not started, and \<open>send\<close>
  drops the payload.\<close>

theorem send_not_started_writes_nothing_witness:
  "\<not> truthy (isStarted disconnected) \<and>
   session sample_runtime (Some ''KEY'') [Callback (On_connectFailed ''refused'')] =
     Done disconnected
       [ClientConnect ''wss://acp-api.amivoice.com/v1/'',
        Log [JStr ''AmiVoice: '', JStr ''refused'']] \<and>
   AmiVoice_send sample_runtime (JStr ''fv8='') disconnected = Done disconnected []"
proof -
  have t: "\<not> truthy (isStarted disconnected)" by (simp add: disconnected_def)
  from send_not_started_writes_nothing [of disconnected sample_runtime "JStr ''fv8=''"] t
  have "AmiVoice_send sample_runtime (JStr ''fv8='') disconnected = Done disconnected []"
    by blast
  then show ?thesis using t reach_disconnected by simp
qed

subsection \<open>C6: the provider's text frames\<close>

text \<open>
  Claim C6 says that a frame \<open>A\<close> makes the session emit one event of the form
  \<open>{ text: <the document's text field> }\<close>. The event the code emits has another form: its
  argument is \<open>{ body: <the parsed document> }\<close>. For the frame \<open>A {"text":"hello"}\<close> it is
  \<open>{ body: { text: "hello" } }\<close>, not \<open>{ text: "hello" }\<close>.
\<close>

theorem transcription_event_wraps_document_in_body:
  "connection_message sample_runtime 7 (Utf8 frame_result) started =
     Done started
       [Log [JStr ''AmiVoice: [A] '', JStr ''hello''],
        Emit ''transcription'' (JObj [(''body'', JObj [(''text'', JStr ''hello'')])])] \<and>
   JObj [(''body'', JObj [(''text'', JStr ''hello'')])] \<noteq> JObj [(''text'', JStr ''hello'')]"
  by (simp add: connection_message_def started_def frame_result_def sample_runtime_def
      sample_parse_def frame_connected_def frame_start_def frame_start_again_def
      frame_media_def frame_media_without_payload_def
      frame_closed_def)

text \<open>
  Claim C6 as amended: on a text frame whose first character is \<open>A\<close> and whose text from
  offset 2 on parses as a JSON document with a readable \<open>text\<close> member (any document but
  \<open>null\<close>), the session logs the text and emits exactly one \<open>transcription\<close> event, whose
  argument is \<open>{ body: <the parsed document> }\<close>; its state does not change. A text frame
  whose first character is one of \<open>S\<close>, \<open>E\<close>, \<open>C\<close>, \<open>U\<close>, \<open>G\<close> has no effect and changes nothing.
\<close>

theorem result_frame_emits_document_once:
  "(c \<in> set (listening s) \<and> take 1 d = ''A'' \<and> JSON_parse rt (drop 2 d) = Some doc \<and>
    js_get doc ''text'' = Inr t \<longrightarrow>
      connection_message rt c (Utf8 d) s =
        Done s [Log [JStr ''AmiVoice: [A] '', t],
                Emit ''transcription'' (JObj [(''body'', doc)])]) \<and>
   (take 1 d \<in> {''S'', ''E'', ''C'', ''U'', ''G''} \<longrightarrow>
      connection_message rt c (Utf8 d) s = Done s [])"
  by (auto simp: connection_message_def)

text \<open>Witness of C6 as amended: the frame \<open>A {"text":"hello"}\<close> and the frame \<open>S\<close> on the
  started session.\<close>

theorem result_frame_emits_document_once_witness:
  "7 \<in> set (listening started) \<and> take 1 frame_result = ''A'' \<and>
   connection_message sample_runtime 7 (Utf8 frame_result) started =
     Done started
       [Log [JStr ''AmiVoice: [A] '', JStr ''hello''],
        Emit ''transcription'' (JObj [(''body'', JObj [(''text'', JStr ''hello'')])])] \<and>
   connection_message sample_runtime 7 (Utf8 ''S'') started = Done started []"
proof -
  have h: "7 \<in> set (listening started) \<and> take 1 frame_result = ''A'' \<and>
      JSON_parse sample_runtime (drop 2 frame_result) =
        Some (JObj [(''text'', JStr ''hello'')]) \<and>
      js_get (JObj [(''text'', JStr ''hello'')]) ''text'' = Inr (JStr ''hello'')"
    by (simp add: started_def frame_result_def sample_runtime_def sample_parse_def
        frame_connected_def frame_start_def frame_start_again_def frame_media_def
        frame_media_without_payload_def frame_closed_def)
  have g: "take 1 ''S'' \<in> {''S'', ''E'', ''C'', ''U'', ''G''}" by simp
  from result_frame_emits_document_once
         [of 7 started frame_result sample_runtime "JObj [(''text'', JStr ''hello'')]"
             "JStr ''hello''"]
       result_frame_emits_document_once [of 7 started "''S''" sample_runtime] h g
  show ?thesis by blast
qed

subsection \<open>C7: the start command\<close>

text \<open>
  Claim C7: in every run of a Speech Session, also one that an exception ends, what is
  written to a provider connection is nothing, or begins with the start command
  \<open>s mulaw -a-general authorization=<key>\<close> and holds it only there; and when the connect
  has succeeded with connection \<open>c\<close>, the start command was written to \<open>c\<close>: once, and before
  every audio frame.
\<close>

theorem start_command_once_and_first:
  "(writes_on c (effects_of (session rt k calls)) = [] \<or>
    (\<exists>rest. writes_on c (effects_of (session rt k calls)) = Utf8 (start_command k) # rest \<and>
            Utf8 (start_command k) \<notin> set rest)) \<and>
   (session rt k calls = Done s effs \<and> connection s = Some c \<longrightarrow>
      (\<exists>rest. writes_on c effs = Utf8 (start_command k) # rest \<and>
              Utf8 (start_command k) \<notin> set rest))"
proof (intro conjI impI)
  show "writes_on c (effects_of (session rt k calls)) = [] \<or>
    (\<exists>rest. writes_on c (effects_of (session rt k calls)) = Utf8 (start_command k) # rest \<and>
            Utf8 (start_command k) \<notin> set rest)"
    using session_start_first [of k c rt calls] by (simp add: start_first_def)
next
  assume a: "session rt k calls = Done s effs \<and> connection s = Some c"
  then have "session_inv k s effs" using session_inv_reached by blast
  then show "\<exists>rest. writes_on c effs = Utf8 (start_command k) # rest \<and>
              Utf8 (start_command k) \<notin> set rest"
    using a by (simp add: session_inv_def)
qed

text \<open>Witness of C7: connect on connection 7, the provider's \<open>s\<close>, one audio chunk: the
  start command, then the audio frame.\<close>

theorem start_command_once_and_first_witness:
  "connection started = Some 7 \<and>
   writes_on 7
     (effects_of (session sample_runtime (Some ''KEY'')
        [Callback (On_connect 7), Callback (On_message 7 (Utf8 ''s'')),
         Call_send (JStr ''fv8='')])) =
     [Utf8 ''s mulaw -a-general authorization=KEY'', Binary [0x70, 0x7e, 0xff]]"
proof -
  have c: "connection started = Some 7" by (simp add: started_def)
  from start_command_once_and_first [of 7 sample_runtime "Some ''KEY''" _ started]
       reach_sent c
  show ?thesis by (simp add: reach_sent)
qed

subsection \<open>C8: \<open>close()\<close> of a Speech Session\<close>

text \<open>
  Claim C8 says that \<open>close()\<close> on a session whose started flag is set sends \<open>e\<close> and
  clears the flag. The code asks for both flags, \<open>isStarted\<close> and \<open>isReady\<close>. After the
  provider's \<open>e\<close> and a further \<open>s\<close> the started flag is set and the ready flag is not;
  there \<open>close()\<close> writes nothing and leaves the started flag set.
\<close>

theorem close_started_not_ready_sends_nothing:
  "session sample_runtime (Some ''KEY'')
     [Callback (On_connect 7), Callback (On_message 7 (Utf8 ''s'')),
      Callback (On_message 7 (Utf8 ''e'')), Callback (On_message 7 (Utf8 ''s''))] =
   Done started_not_ready
     [ClientConnect ''wss://acp-api.amivoice.com/v1/'',
      Log [JStr ''AmiVoice: websocket client connected''],
      ConnSend 7 (Utf8 ''s mulaw -a-general authorization=KEY''),
      Log [JStr ''AmiVoice: [s] Connection established''],
      Log [JStr ''AmiVoice: [e] Connection closed''],
      Log [JStr ''AmiVoice: [s] Connection established'']] \<and>
   isStarted started_not_ready = Some True \<and>
   AmiVoice_close started_not_ready = Done started_not_ready []"
  by (simp add: reach_started_not_ready) (simp add: AmiVoice_close_def started_not_ready_def)

text \<open>
  Claim C8 as amended: in every state a Speech Session can reach, \<open>close()\<close> on a session
  whose started flag and ready flag are both set logs, sends exactly the one command \<open>e\<close>
  on the session's connection and clears the started flag; in every other case \<open>close()\<close>
  writes nothing and changes nothing.
\<close>

theorem close_sends_e_when_started_and_ready:
  assumes "session rt k calls = Done s effs"
  shows "(truthy (isStarted s) \<and> isReady s \<longrightarrow>
            (\<exists>c. connection s = Some c \<and>
                 AmiVoice_close s =
                   Done (s\<lparr>isStarted := Some False\<rparr>)
                     [Log [JStr ''AmiVoice: send close command''], ConnSend c (Utf8 ''e'')])) \<and>
         (\<not> (truthy (isStarted s) \<and> isReady s) \<longrightarrow> AmiVoice_close s = Done s [])"
proof (intro conjI impI)
  assume a: "truthy (isStarted s) \<and> isReady s"
  have "session_inv k s effs" using assms by (rule session_inv_reached)
  then obtain c where "connection s = Some c" using a inv_started_connected by blast
  then show "\<exists>c. connection s = Some c \<and>
                 AmiVoice_close s =
                   Done (s\<lparr>isStarted := Some False\<rparr>)
                     [Log [JStr ''AmiVoice: send close command''], ConnSend c (Utf8 ''e'')]"
    using a by (simp add: AmiVoice_close_def)
next
  assume "\<not> (truthy (isStarted s) \<and> isReady s)"
  then show "AmiVoice_close s = Done s []" by (auto simp: AmiVoice_close_def)
qed

text \<open>Witness of C8 as amended: the session started on connection 7.\<close>

theorem close_sends_e_when_started_and_ready_witness:
  "truthy (isStarted started) \<and> isReady started \<and>
   AmiVoice_close started =
     Done (started\<lparr>isStarted := Some False\<rparr>)
       [Log [JStr ''AmiVoice: send close command''], ConnSend 7 (Utf8 ''e'')]"
proof -
  have t: "truthy (isStarted started) \<and> isReady started" by (simp add: started_def)
  from close_sends_e_when_started_and_ready [OF reach_started] t
  show ?thesis by (auto simp: started_def)
qed

subsection \<open>C9: the reply pipeline\<close>

text \<open>
  Claim C9, from the emission to the call update. In a call whose Speech Session at
  address \<open>a\<close> has its one listener and its handlers on connection \<open>c\<close>, let a result frame
  with a readable text arrive, then the completion request settle with a response whose
  first choice holds a string, then the call update succeed. What happens, and all that
  happens, is: the session logs and emits; \<open>receivedTranscription\<close> logs and requests
  exactly one completion (model \<open>gpt-3.5-turbo\<close>, one user message holding the text);
  resumed, it updates the call exactly once, with the call identifier stored in the stream
  and the document that says the completion string and then pauses for 40 seconds; the
  success is logged. Nothing is left suspended: the call is as before.
\<close>

theorem reply_pipeline_once:
  assumes "a < length (heap w)" and "listeners (heap w ! a) = Suc 0"
    and "c \<in> set (listening (heap w ! a))"
    and "take 1 r = ''A''" and "JSON_parse rt (drop 2 r) = Some doc"
    and "js_get doc ''text'' = Inr text"
    and "chatGptMessage completion = Inr (JStr msg)"
  shows "play rt
           [Provider a (On_message c (Utf8 r)),
            Completion_settled (length (awaiting w)) (Some completion),
            Update_settled (length (updating w)) True] w =
         Done w
           [Log [JStr ''AmiVoice: [A] '', text],
            Emit ''transcription'' (JObj [(''body'', doc)]),
            Log [JStr ''Twilio WS: Received message from AmiVoice: '', text],
            CreateChatCompletion ''gpt-3.5-turbo'' [(''user'', text)],
            CallsUpdate (callSid (stream w)) [Say ''Polly.Takumi-Neural'' ''ja-JP'' msg, Pause 40],
            Log [JStr ''Twilio WS: ChatGPT response sent back with TwiML: '', JStr msg]]"
proof -
  let ?sid = "callSid (stream w)"
  let ?w1 = "w\<lparr>awaiting := awaiting w @ [?sid]\<rparr>"
  let ?w2 = "w\<lparr>updating := updating w @ [JStr msg]\<rparr>"
  have m: "connection_message rt c (Utf8 r) (heap w ! a) =
             Done (heap w ! a)
               [Log [JStr ''AmiVoice: [A] '', text],
                Emit ''transcription'' (JObj [(''body'', doc)])]"
    using assms(3-6) by (simp add: connection_message_def)
  have s1: "step rt (Provider a (On_message c (Utf8 r))) w =
              Done ?w1
                [Log [JStr ''AmiVoice: [A] '', text],
                 Emit ''transcription'' (JObj [(''body'', doc)]),
                 Log [JStr ''Twilio WS: Received message from AmiVoice: '', text],
                 CreateChatCompletion ''gpt-3.5-turbo'' [(''user'', text)]]"
    using assms(1,2,6) m
    by (simp add: provider_def receivedTranscription_requests_completion [OF _ assms(6)])
  have s2: "step rt (Completion_settled (length (awaiting w)) (Some completion)) ?w1 =
              Done ?w2
                [CallsUpdate ?sid [Say ''Polly.Takumi-Neural'' ''ja-JP'' msg, Pause 40]]"
    by (simp add: receivedTranscription_resumed_updates_call [OF assms(7)])
  have s3: "step rt (Update_settled (length (updating w)) True) ?w2 =
              Done w [Log [JStr ''Twilio WS: ChatGPT response sent back with TwiML: '', JStr msg]]"
    by (simp add: update_then_def)
  show ?thesis using s1 s2 s3 by simp
qed

text \<open>Witness of C9: in call \<open>CA123\<close>, started on connection 7, the result \<open>hello\<close>
  answered with \<open>hi\<close>.\<close>

theorem reply_pipeline_once_witness:
  "play sample_runtime
     [Provider 0 (On_message 7 (Utf8 frame_result)),
      Completion_settled 0 (Some sample_completion),
      Update_settled 0 True] in_call =
   Done in_call
     [Log [JStr ''AmiVoice: [A] '', JStr ''hello''],
      Emit ''transcription'' (JObj [(''body'', JObj [(''text'', JStr ''hello'')])]),
      Log [JStr ''Twilio WS: Received message from AmiVoice: '', JStr ''hello''],
      CreateChatCompletion ''gpt-3.5-turbo'' [(''user'', JStr ''hello'')],
      CallsUpdate (JStr ''CA123'') [Say ''Polly.Takumi-Neural'' ''ja-JP'' ''hi'', Pause 40],
      Log [JStr ''Twilio WS: ChatGPT response sent back with TwiML: '', JStr ''hi'']]"
proof -
  have h: "0 < length (heap in_call)" "listeners (heap in_call ! 0) = Suc 0"
    "7 \<in> set (listening (heap in_call ! 0))"
    by (simp_all add: in_call_def)
  have f: "take 1 frame_result = ''A''"
    "JSON_parse sample_runtime (drop 2 frame_result) = Some (JObj [(''text'', JStr ''hello'')])"
    by (simp_all add: sample_runtime_def sample_parse_def frame_connected_def frame_start_def
        frame_start_again_def frame_media_def frame_media_without_payload_def
        frame_closed_def frame_result_def)
  have t: "js_get (JObj [(''text'', JStr ''hello'')]) ''text'' = Inr (JStr ''hello'')" by simp
  have m: "chatGptMessage sample_completion = Inr (JStr ''hi'')"
    by (simp add: chatGptMessage_def sample_completion_def)
  from reply_pipeline_once [OF h(1) h(2) h(3) f(1) f(2) t m]
  show ?thesis by (simp add: in_call_def)
qed

subsection \<open>C10: a second \<open>start\<close>\<close>

text \<open>
  Claim C10: when the stream already holds a Speech Session at address \<open>a\<close>, a further
  \<open>start\<close> event logs and constructs a new session (one connect attempt), stores the new
  call identifier and the reference to the new object, and does nothing to the old
  object: nothing is written to its connection and its fields, its listener among them,
  are as before. A result frame on the old object's connection still runs the reply
  pipeline, now with the new call identifier.
\<close>

theorem second_start_leaves_previous_session:
  assumes "amiVoiceConnection (stream w) = Some a" and "a < length (heap w)"
    and "JSON_parse rt d = Some data" and "js_get data ''event'' = Inr (JStr ''start'')"
    and "js_get data ''start'' = Inr st" and "js_get st ''callSid'' = Inr sid"
    and "listeners (heap w ! a) = Suc 0" and "c \<in> set (listening (heap w ! a))"
    and "take 1 r = ''A''" and "JSON_parse rt (drop 2 r) = Some doc"
    and "js_get doc ''text'' = Inr text"
  shows "\<exists>w'. processMessage rt (Utf8 d) w =
                Done w' [Log [JStr ''Twilio WS: Start event received: '', data],
                         ClientConnect AMIVOICE_WEBSOCKET_URL] \<and>
              amiVoiceConnection (stream w') = Some (length (heap w)) \<and>
              callSid (stream w') = sid \<and>
              heap w' = heap w @ [fresh_session rt] \<and>
              heap w' ! a = heap w ! a \<and>
              provider rt a (On_message c (Utf8 r)) w' =
                Done (w'\<lparr>awaiting := awaiting w @ [sid]\<rparr>)
                  [Log [JStr ''AmiVoice: [A] '', text],
                   Emit ''transcription'' (JObj [(''body'', doc)]),
                   Log [JStr ''Twilio WS: Received message from AmiVoice: '', text],
                   CreateChatCompletion ''gpt-3.5-turbo'' [(''user'', text)]]"
proof -
  define w' where "w' =
    w\<lparr>stream := \<lparr>messageCount = Suc (messageCount (stream w)),
                  amiVoiceConnection = Some (length (heap w)), callSid = sid\<rparr>,
      heap := heap w @ [fresh_session rt]\<rparr>"
  have p: "processMessage rt (Utf8 d) w =
             Done w' [Log [JStr ''Twilio WS: Start event received: '', data],
                      ClientConnect AMIVOICE_WEBSOCKET_URL]"
    using assms(3-6)
    by (simp add: processMessage_def switch_event_def case_start_def AmiVoice_new_def
        AmiVoice_connect_def fresh_session_def w'_def)
  have old: "heap w' ! a = heap w ! a" using assms(2) by (simp add: w'_def nth_append)
  have len: "a < length (heap w')" using assms(2) by (simp add: w'_def)
  have m: "connection_message rt c (Utf8 r) (heap w ! a) =
             Done (heap w ! a)
               [Log [JStr ''AmiVoice: [A] '', text],
                Emit ''transcription'' (JObj [(''body'', doc)])]"
    using assms(8-11) by (simp add: connection_message_def)
  have q: "provider rt a (On_message c (Utf8 r)) w' =
             Done (w'\<lparr>awaiting := awaiting w @ [sid]\<rparr>)
               [Log [JStr ''AmiVoice: [A] '', text],
                Emit ''transcription'' (JObj [(''body'', doc)]),
                Log [JStr ''Twilio WS: Received message from AmiVoice: '', text],
                CreateChatCompletion ''gpt-3.5-turbo'' [(''user'', text)]]"
  proof -
    have upd: "(heap w')[a := heap w ! a] = heap w'"
      using old list_update_id [of "heap w'" a] by simp
    have aw: "awaiting w' = awaiting w" and cs: "callSid (stream w') = sid"
      by (simp_all add: w'_def)
    show ?thesis
      using len old m assms(7,11) upd aw cs
      by (simp add: provider_def receivedTranscription_def)
  qed
  show ?thesis
    using p q old by (intro exI [of _ w']) (simp add: w'_def)
qed

text \<open>Witness of C10: in call \<open>CA123\<close>, started on connection 7, a second \<open>start\<close> for
  \<open>CA456\<close>; then the result \<open>hello\<close> on connection 7 requests a completion, awaited for
  \<open>CA456\<close>.\<close>

theorem second_start_leaves_previous_session_witness:
  "amiVoiceConnection (stream in_call) = Some 0 \<and>
   processMessage sample_runtime (Utf8 frame_start_again) in_call =
     Done restarted
       [Log [JStr ''Twilio WS: Start event received: '',
             JObj [(''event'', JStr ''start''),
                   (''start'', JObj [(''callSid'', JStr ''CA456'')])]],
        ClientConnect ''wss://acp-api.amivoice.com/v1/''] \<and>
   heap restarted ! 0 = heap in_call ! 0 \<and>
   provider sample_runtime 0 (On_message 7 (Utf8 frame_result)) restarted =
     Done (restarted\<lparr>awaiting := [JStr ''CA456'']\<rparr>)
       [Log [JStr ''AmiVoice: [A] '', JStr ''hello''],
        Emit ''transcription'' (JObj [(''body'', JObj [(''text'', JStr ''hello'')])]),
        Log [JStr ''Twilio WS: Received message from AmiVoice: '', JStr ''hello''],
        CreateChatCompletion ''gpt-3.5-turbo'' [(''user'', JStr ''hello'')]]"
proof -
  have p: "processMessage sample_runtime (Utf8 frame_start_again) in_call =
     Done restarted
       [Log [JStr ''Twilio WS: Start event received: '',
             JObj [(''event'', JStr ''start''),
                   (''start'', JObj [(''callSid'', JStr ''CA456'')])]],
        ClientConnect ''wss://acp-api.amivoice.com/v1/'']"
    by (simp add: world_simps session_simps in_call_def restarted_def fresh_session_def)
  have h1: "amiVoiceConnection (stream in_call) = Some 0" "0 < length (heap in_call)"
    "listeners (heap in_call ! 0) = Suc 0" "7 \<in> set (listening (heap in_call ! 0))"
    by (simp_all add: in_call_def)
  have h2: "JSON_parse sample_runtime frame_start_again =
              Some (JObj [(''event'', JStr ''start''),
                          (''start'', JObj [(''callSid'', JStr ''CA456'')])])"
    "JSON_parse sample_runtime (drop 2 frame_result) = Some (JObj [(''text'', JStr ''hello'')])"
    "take 1 frame_result = ''A''"
    by (simp_all add: sample_runtime_def sample_parse_def frame_connected_def frame_start_def
        frame_start_again_def frame_media_def frame_media_without_payload_def
        frame_closed_def frame_result_def)
  from second_start_leaves_previous_session
         [OF h1(1) h1(2) h2(1) _ _ _ h1(3) h1(4) h2(3) h2(2),
          of "JObj [(''callSid'', JStr ''CA456'')]" "JStr ''CA456''" "JStr ''hello''"]
  obtain w' where
    a: "processMessage sample_runtime (Utf8 frame_start_again) in_call =
          Done w' [Log [JStr ''Twilio WS: Start event received: '',
                        JObj [(''event'', JStr ''start''),
                              (''start'', JObj [(''callSid'', JStr ''CA456'')])]],
                   ClientConnect AMIVOICE_WEBSOCKET_URL]" and
    b: "heap w' ! 0 = heap in_call ! 0" and
    c: "provider sample_runtime 0 (On_message 7 (Utf8 frame_result)) w' =
          Done (w'\<lparr>awaiting := awaiting in_call @ [JStr ''CA456'']\<rparr>)
            [Log [JStr ''AmiVoice: [A] '', JStr ''hello''],
             Emit ''transcription'' (JObj [(''body'', JObj [(''text'', JStr ''hello'')])]),
             Log [JStr ''Twilio WS: Received message from AmiVoice: '', JStr ''hello''],
             CreateChatCompletion ''gpt-3.5-turbo'' [(''user'', JStr ''hello'')]]"
    by auto
  from a p have "w' = restarted" by simp
  with b c p h1(1) show ?thesis by (simp add: in_call_def)
qed

end
